theory Spec2Isabelle
  imports Main
begin

section \<open>Python values and the provenance string \<open>lstr\<close>\<close>

text \<open>
  The class \<open>lstr\<close> of \<open>src/ell/lstr.py\<close> is a subclass of \<open>str\<close> with two more
  fields: \<open>_logits\<close> (an optional array, never looked into by the class, hence the type
  parameter \<open>'l\<close>) and the name-mangled \<open>__origin_trace\<close>, a frozen set of marker strings.
  The text of the string is the field \<open>content\<close>.
\<close>

record 'l lstr =
  content :: string
  logits :: "'l option"
  origin_trace :: "string set"

text \<open>
  The Python values that reach the methods of the class. \<open>PStr\<close> is an object whose type
  is exactly \<open>str\<close>; \<open>PStrSub\<close> is an instance of a strict subclass of \<open>str\<close> other than
  \<open>lstr\<close> (it carries its text); \<open>PLstr\<close> is an object whose type is exactly \<open>lstr\<close>;
  \<open>PLstrSub\<close> is an instance of a strict subclass of \<open>lstr\<close> (it carries the fields of
  an \<open>lstr\<close>); the subclasses add no method of their own. \<open>PTuple\<close> and \<open>PList\<close> are a
  tuple and a list; \<open>PSlice\<close> is a slice object with integer or absent fields;
  \<open>PObject\<close> stands for any other object (a float, an instance of a user class),
  identified by a number: it is not a string, has no \<open>__index__\<close> and cannot be
  iterated. \<open>PNotImplemented\<close> is the sentinel \<open>NotImplemented\<close>.
\<close>

datatype 'l pyval =
    PNone
  | PBool bool
  | PInt int
  | PStr string
  | PStrSub string
  | PLstr "'l lstr"
  | PLstrSub "'l lstr"
  | PTuple "'l pyval list"
  | PList "'l pyval list"
  | PSlice "int option" "int option" "int option"
  | PClass string
  | PObject nat
  | PNotImplemented

datatype pyerr = TypeError | ValueError | IndexError | AttributeError | OverflowError

text \<open>\<open>isinstance(v, str)\<close>, \<open>isinstance(v, lstr)\<close> and the text of a string object.\<close>

fun is_str :: "'l pyval \<Rightarrow> bool" where
  "is_str (PStr s) = True"
| "is_str (PStrSub s) = True"
| "is_str (PLstr x) = True"
| "is_str (PLstrSub x) = True"
| "is_str v = False"

fun is_lstr :: "'l pyval \<Rightarrow> bool" where
  "is_lstr (PLstr x) = True"
| "is_lstr (PLstrSub x) = True"
| "is_lstr v = False"

fun text_of :: "'l pyval \<Rightarrow> string" where
  "text_of (PStr s) = s"
| "text_of (PStrSub s) = s"
| "text_of (PLstr x) = content x"
| "text_of (PLstrSub x) = content x"
| "text_of v = []"

text \<open>
  The markers an operand contributes: \<open>other.__origin_trace\<close> when
  \<open>isinstance(other, lstr)\<close>, nothing otherwise.
\<close>

fun origins_of :: "'l pyval \<Rightarrow> string set" where
  "origins_of (PLstr x) = origin_trace x"
| "origins_of (PLstrSub x) = origin_trace x"
| "origins_of v = {}"

subsection \<open>Construction\<close>

text \<open>
  \<open>__new__(cls, content, logits=None, _origin_trace=None)\<close>: the third argument is
  absent, one marker string, or a collection of markers.
\<close>

datatype origin_arg = ONone | OStr string | OSet "string set"

fun lstr_new :: "string \<Rightarrow> 'l option \<Rightarrow> origin_arg \<Rightarrow> 'l lstr" where
  "lstr_new c l (OStr m) = \<lparr>content = c, logits = l, origin_trace = {m}\<rparr>"
| "lstr_new c l (OSet ms) = \<lparr>content = c, logits = l, origin_trace = ms\<rparr>"
| "lstr_new c l ONone = \<lparr>content = c, logits = l, origin_trace = {}\<rparr>"

subsection \<open>Concatenation\<close>

text \<open>
  \<open>__add__\<close>: \<open>type(other) is str\<close>, then \<open>isinstance(other, lstr)\<close> (which holds of an
  instance of a subclass of \<open>lstr\<close> too), else the sentinel.
\<close>

fun lstr_add :: "'l lstr \<Rightarrow> 'l pyval \<Rightarrow> 'l pyval" where
  "lstr_add self (PStr s) =
     PLstr (lstr_new (content self @ s) None (OSet (origin_trace self)))"
| "lstr_add self (PLstr other) =
     PLstr (lstr_new (content self @ content other) None
       (OSet (origin_trace self \<union> origin_trace other)))"
| "lstr_add self (PLstrSub other) =
     PLstr (lstr_new (content self @ content other) None
       (OSet (origin_trace self \<union> origin_trace other)))"
| "lstr_add self other = PNotImplemented"

subsection \<open>Repetition\<close>

text \<open>
  \<open>isinstance(other, SupportsIndex)\<close> holds of integers and booleans (which have
  \<open>__index__\<close>). \<open>ssize_max\<close> is the largest index-sized integer of a 64-bit build.
  \<open>str.__mul__\<close> raises \<open>OverflowError\<close> for a count that is not index-sized, gives the
  empty string for a count below one and the string itself for the count one, and
  raises \<open>OverflowError\<close> when the repeated string would be longer than \<open>ssize_max\<close>. A
  failure to allocate the result is not modelled.
\<close>

fun supports_index :: "'l pyval \<Rightarrow> int option" where
  "supports_index (PInt n) = Some n"
| "supports_index (PBool b) = Some (if b then 1 else 0)"
| "supports_index v = None"

definition ssize_max :: int where
  "ssize_max = 9223372036854775807"

definition index_sized :: "int \<Rightarrow> bool" where
  "index_sized n = (- ssize_max - 1 \<le> n \<and> n \<le> ssize_max)"

definition str_mul :: "string \<Rightarrow> int \<Rightarrow> pyerr + string" where
  "str_mul s n =
     (if \<not> index_sized n then Inl OverflowError
      else if n < 1 then Inr []
      else if n = 1 then Inr s
      else if int (length s) > ssize_max div n then Inl OverflowError
      else Inr (concat (replicate (nat n) s)))"

text \<open>
  \<open>__mul__\<close>: the sentinel for an operand without \<open>__index__\<close>; otherwise the plain
  result, wrapped, or the exception of the plain operation. \<open>__rmul__\<close> calls \<open>__mul__\<close>.
\<close>

definition lstr_mul :: "'l lstr \<Rightarrow> 'l pyval \<Rightarrow> pyerr + 'l pyval" where
  "lstr_mul self other =
     (case supports_index other of
        Some n \<Rightarrow>
          (case str_mul (content self) n of
             Inl e \<Rightarrow> Inl e
           | Inr result_content \<Rightarrow>
               Inr (PLstr (lstr_new result_content None (OSet (origin_trace self)))))
      | None \<Rightarrow> Inr PNotImplemented)"

definition lstr_rmul :: "'l lstr \<Rightarrow> 'l pyval \<Rightarrow> pyerr + 'l pyval" where
  "lstr_rmul self other = lstr_mul self other"

subsection \<open>Indexing and slicing\<close>

text \<open>
  \<open>str.__getitem__\<close>, which \<open>lstr.__getitem__\<close> calls through \<open>super\<close>. An index
  below zero counts from the end, an index out of range raises \<open>IndexError\<close>. A slice
  follows the interpreter's adjustment of its bounds: a step of zero raises
  \<open>ValueError\<close>, absent bounds are the ends in the direction of the step, and bounds out
  of range are clipped. A key that is neither raises \<open>TypeError\<close>.
\<close>

definition str_index :: "string \<Rightarrow> int \<Rightarrow> pyerr + string" where
  "str_index s i =
     (let n = int (length s); j = (if i < 0 then i + n else i)
      in if 0 \<le> j \<and> j < n then Inr [s ! nat j] else Inl IndexError)"

definition adjust_bound :: "int \<Rightarrow> int \<Rightarrow> int \<Rightarrow> int \<Rightarrow> int" where
  "adjust_bound n lower upper b =
     (if b < 0 then max (b + n) lower else min b upper)"

definition slice_length :: "int \<Rightarrow> int \<Rightarrow> int \<Rightarrow> int" where
  "slice_length start stop step =
     (if 0 < step then (if start < stop then (stop - start - 1) div step + 1 else 0)
      else (if stop < start then (start - stop - 1) div (- step) + 1 else 0))"

definition str_slice :: "string \<Rightarrow> int option \<Rightarrow> int option \<Rightarrow> int option \<Rightarrow> pyerr + string" where
  "str_slice s a b c =
     (let step = (case c of None \<Rightarrow> 1 | Some k \<Rightarrow> k) in
      if step = 0 then Inl ValueError
      else
        let n = int (length s);
            lower = (if step < 0 then - 1 else 0);
            upper = (if step < 0 then n - 1 else n);
            start = (case a of None \<Rightarrow> (if step < 0 then upper else lower)
                     | Some i \<Rightarrow> adjust_bound n lower upper i);
            stop = (case b of None \<Rightarrow> (if step < 0 then lower else upper)
                    | Some i \<Rightarrow> adjust_bound n lower upper i)
        in Inr (map (\<lambda>k. s ! nat (start + int k * step))
                  [0 ..< nat (slice_length start stop step)]))"

fun str_getitem :: "string \<Rightarrow> 'l pyval \<Rightarrow> pyerr + string" where
  "str_getitem s (PInt i) = str_index s i"
| "str_getitem s (PBool b) = str_index s (if b then 1 else 0)"
| "str_getitem s (PSlice a b c) = str_slice s a b c"
| "str_getitem s k = Inl TypeError"

text \<open>
  \<open>__getitem__\<close>: the result of the plain operation, wrapped with \<open>logit_subset = None\<close>
  and the receiver's markers. An exception of the plain operation propagates.
\<close>

definition lstr_getitem :: "'l lstr \<Rightarrow> 'l pyval \<Rightarrow> pyerr + 'l lstr" where
  "lstr_getitem self key =
     (case str_getitem (content self) key of
        Inl e \<Rightarrow> Inl e
      | Inr result \<Rightarrow> Inr (lstr_new result None (OSet (origin_trace self))))"

subsection \<open>The plain string operations the class delegates to\<close>

text \<open>
  The built-in \<open>str\<close> methods that the overriding methods reach through \<open>super\<close>:
  searching, \<open>partition\<close>, \<open>rpartition\<close>, \<open>split\<close>, \<open>rsplit\<close> and \<open>join\<close>. A character
  is a code point below 256.
\<close>

definition starts_with :: "string \<Rightarrow> string \<Rightarrow> bool" where
  "starts_with sep s = (take (length sep) s = sep)"

text \<open>The lowest and the highest position at which \<open>sep\<close> occurs in \<open>s\<close>.\<close>

fun find_sub :: "string \<Rightarrow> string \<Rightarrow> nat option" where
  "find_sub sep [] = (if sep = [] then Some 0 else None)"
| "find_sub sep (c # cs) =
     (if starts_with sep (c # cs) then Some 0 else map_option Suc (find_sub sep cs))"

fun rfind_sub :: "string \<Rightarrow> string \<Rightarrow> nat option" where
  "rfind_sub sep [] = (if sep = [] then Some 0 else None)"
| "rfind_sub sep (c # cs) =
     (case rfind_sub sep cs of
        Some i \<Rightarrow> Some (Suc i)
      | None \<Rightarrow> if starts_with sep (c # cs) then Some 0 else None)"

text \<open>
  \<open>str.partition\<close> and \<open>str.rpartition\<close>: a separator that is not a string raises
  \<open>TypeError\<close>, an empty one \<open>ValueError\<close>.
\<close>

definition str_partition :: "string \<Rightarrow> 'l pyval \<Rightarrow> pyerr + string \<times> string \<times> string" where
  "str_partition s sep =
     (if \<not> is_str sep then Inl TypeError
      else if text_of sep = [] then Inl ValueError
      else case find_sub (text_of sep) s of
             None \<Rightarrow> Inr (s, [], [])
           | Some i \<Rightarrow> Inr (take i s, text_of sep, drop (i + length (text_of sep)) s))"

definition str_rpartition :: "string \<Rightarrow> 'l pyval \<Rightarrow> pyerr + string \<times> string \<times> string" where
  "str_rpartition s sep =
     (if \<not> is_str sep then Inl TypeError
      else if text_of sep = [] then Inl ValueError
      else case rfind_sub (text_of sep) s of
             None \<Rightarrow> Inr ([], [], s)
           | Some i \<Rightarrow> Inr (take i s, text_of sep, drop (i + length (text_of sep)) s))"

text \<open>
  Splitting at a separator, left to right: \<open>n\<close> is the number of splits still allowed,
  a negative \<open>n\<close> is no bound. \<open>acc\<close> holds the characters of the fragment being read.
\<close>

function split_sep :: "string \<Rightarrow> int \<Rightarrow> string \<Rightarrow> string \<Rightarrow> string list" where
  "split_sep sep n acc s =
     (if n = 0 then [acc @ s]
      else case s of
        [] \<Rightarrow> [acc]
      | c # cs \<Rightarrow>
          if sep \<noteq> [] \<and> starts_with sep s
          then acc # split_sep sep (if n < 0 then n else n - 1) [] (drop (length sep) s)
          else split_sep sep n (acc @ [c]) cs)"
  by pat_completeness auto
termination
  by (relation "measure (\<lambda>(sep, n, acc, s). length s)") auto

declare split_sep.simps [simp del]

text \<open>Splitting at runs of whitespace, for an absent separator.\<close>

definition is_space :: "char \<Rightarrow> bool" where
  "is_space c = (let k = (of_char c :: nat) in
     (9 \<le> k \<and> k \<le> 13) \<or> (28 \<le> k \<and> k \<le> 32) \<or> k = 133 \<or> k = 160)"

function split_ws :: "int \<Rightarrow> string \<Rightarrow> string list" where
  "split_ws n s =
     (let s1 = dropWhile is_space s in
      if s1 = [] then []
      else if n = 0 then [s1]
      else takeWhile (\<lambda>c. \<not> is_space c) s1 #
           split_ws (if n < 0 then n else n - 1) (dropWhile (\<lambda>c. \<not> is_space c) s1))"
  by pat_completeness auto
termination
proof (relation "measure (\<lambda>(n, s). length s)", goal_cases)
  case 1
  show ?case by simp
next
  case (2 n s s1)
  then obtain c cs where s1: "dropWhile is_space s = c # cs"
    by (cases "dropWhile is_space s") auto
  then have "\<not> is_space c"
    using hd_dropWhile[of is_space s] by auto
  then have "length (dropWhile (\<lambda>c. \<not> is_space c) (c # cs)) \<le> length cs"
    by (simp add: length_dropWhile_le)
  moreover have "length (c # cs) \<le> length s"
    using length_dropWhile_le[of is_space s] s1 by simp
  ultimately show ?case using 2 s1 by simp
qed

declare split_ws.simps [simp del]

text \<open>
  \<open>str.split(sep, maxsplit)\<close>: a bound that is not index-sized raises \<open>OverflowError\<close>
  when the arguments are read; an absent separator splits at whitespace; a separator
  that is not a string raises \<open>TypeError\<close>, an empty one \<open>ValueError\<close>.
\<close>

definition str_split :: "string \<Rightarrow> 'l pyval \<Rightarrow> int \<Rightarrow> pyerr + string list" where
  "str_split s sep maxsplit =
     (if \<not> index_sized maxsplit then Inl OverflowError
      else if sep = PNone then Inr (split_ws maxsplit s)
      else if \<not> is_str sep then Inl TypeError
      else if text_of sep = [] then Inl ValueError
      else Inr (split_sep (text_of sep) maxsplit [] s))"


fun str_join :: "string \<Rightarrow> string list \<Rightarrow> string" where
  "str_join sep [] = []"
| "str_join sep [x] = x"
| "str_join sep (x # y # ys) = x @ sep @ str_join sep (y # ys)"

subsection \<open>Collecting the markers of operands\<close>

text \<open>
  The loop \<open>for item in items: if isinstance(item, lstr): acc = acc.union(item.__origin_trace)\<close>
  that \<open>__mod__\<close>, \<open>join\<close> and the generic wrapper run over their arguments.
\<close>

fun collect_origins :: "string set \<Rightarrow> 'l pyval list \<Rightarrow> string set" where
  "collect_origins acc [] = acc"
| "collect_origins acc (item # items) =
     collect_origins (if is_lstr item then acc \<union> origins_of item else acc) items"

subsection \<open>Stringification\<close>

text \<open>
  \<open>str(o)\<close>: for a string object \<open>str.__str__\<close> returns its text (\<open>lstr\<close> defines no
  \<open>__str__\<close> of its own); for any other object the interpreter's conversion
  \<open>object_str\<close> is a parameter.
\<close>

definition py_str :: "('l pyval \<Rightarrow> string) \<Rightarrow> 'l pyval \<Rightarrow> string" where
  "py_str object_str o' = (if is_str o' then text_of o' else object_str o')"

subsection \<open>Template substitution\<close>

text \<open>
  \<open>__mod__\<close>. The built-in \<open>str.__mod__\<close> is the parameter \<open>fmt\<close>: it takes the template
  text and the right operand and returns the substituted text or raises. For a tuple the
  method passes the tuple of the stringified elements; any other operand is passed as it
  is.
\<close>

definition lstr_mod ::
  "(string \<Rightarrow> 'l pyval \<Rightarrow> pyerr + string) \<Rightarrow> ('l pyval \<Rightarrow> string) \<Rightarrow>
   'l lstr \<Rightarrow> 'l pyval \<Rightarrow> pyerr + 'l lstr" where
  "lstr_mod fmt object_str self other =
     (case other of
        PTuple items \<Rightarrow>
          (case fmt (content self) (PTuple (map (\<lambda>o'. PStr (py_str object_str o')) items)) of
             Inl e \<Rightarrow> Inl e
           | Inr result_content \<Rightarrow>
               Inr (lstr_new result_content None
                     (OSet (collect_origins (origin_trace self) items))))
      | _ \<Rightarrow>
          (case fmt (content self) other of
             Inl e \<Rightarrow> Inl e
           | Inr result_content \<Rightarrow>
               Inr (lstr_new result_content None
                     (OSet (if is_lstr other then origin_trace self \<union> origins_of other
                            else origin_trace self)))))"

subsection \<open>Join, split, partition\<close>

text \<open>
  The body of \<open>join\<close> on the elements of its argument: every element is stringified,
  so the plain \<open>join\<close> never sees a non-string. The elements are a list here, which
  can be read twice; \<open>lstr_join_call\<close> below is the method on an arbitrary argument.
\<close>

definition lstr_join :: "('l pyval \<Rightarrow> string) \<Rightarrow> 'l lstr \<Rightarrow> 'l pyval list \<Rightarrow> 'l lstr" where
  "lstr_join object_str self iterable =
     (let parts = map (py_str object_str) iterable;
          new_content = str_join (content self) parts
      in lstr_new new_content None (OSet (collect_origins (origin_trace self) iterable)))"




text \<open>
  \<open>_split_helper(method, sep, maxsplit)\<close>: \<open>method\<close> is the plain \<open>split\<close> or \<open>rsplit\<close>
  bound to the receiver.
\<close>

definition split_helper ::
  "('l pyval \<Rightarrow> int \<Rightarrow> pyerr + string list) \<Rightarrow> 'l lstr \<Rightarrow> 'l pyval \<Rightarrow> int \<Rightarrow>
   pyerr + 'l lstr list" where
  "split_helper method self sep maxsplit =
     (let origin_traces = (if is_lstr sep then origin_trace self \<union> origins_of sep
                           else origin_trace self)
      in case method sep maxsplit of
           Inl e \<Rightarrow> Inl e
         | Inr parts \<Rightarrow> Inr (map (\<lambda>part. lstr_new part None (OSet origin_traces)) parts))"

definition lstr_split :: "'l lstr \<Rightarrow> 'l pyval \<Rightarrow> int \<Rightarrow> pyerr + 'l lstr list" where
  "lstr_split self sep maxsplit = split_helper (str_split (content self)) self sep maxsplit"



text \<open>\<open>_partition_helper(method, sep)\<close>, with \<open>method\<close> the plain operation.\<close>

definition partition_helper ::
  "('l pyval \<Rightarrow> pyerr + string \<times> string \<times> string) \<Rightarrow> 'l lstr \<Rightarrow> 'l pyval \<Rightarrow>
   pyerr + 'l lstr \<times> 'l lstr \<times> 'l lstr" where
  "partition_helper method self sep =
     (case method sep of
        Inl e \<Rightarrow> Inl e
      | Inr (part1, part2, part3) \<Rightarrow>
          (let new_origin_trace = (if is_lstr sep then origin_trace self \<union> origins_of sep
                                   else origin_trace self)
           in Inr (lstr_new part1 None (OSet new_origin_trace),
                   lstr_new part2 None (OSet new_origin_trace),
                   lstr_new part3 None (OSet new_origin_trace))))"

definition lstr_partition ::
  "'l lstr \<Rightarrow> 'l pyval \<Rightarrow> pyerr + 'l lstr \<times> 'l lstr \<times> 'l lstr" where
  "lstr_partition self sep = partition_helper (str_partition (content self)) self sep"

definition lstr_rpartition ::
  "'l lstr \<Rightarrow> 'l pyval \<Rightarrow> pyerr + 'l lstr \<times> 'l lstr \<times> 'l lstr" where
  "lstr_rpartition self sep = partition_helper (str_rpartition (content self)) self sep"

subsection \<open>Generic interception of the inherited methods\<close>

text \<open>
  An attribute is a callable (taking positional and keyword arguments, returning a
  value or raising) or a plain value.
\<close>

datatype 'l attr =
    Callable "'l pyval list \<Rightarrow> (string \<times> 'l pyval) list \<Rightarrow> pyerr + 'l pyval"
  | Plain "'l pyval"

text \<open>
  The names bound in the body of the class (\<open>lstr.__dict__\<close>), with the entries every
  class body gets. None of the other entries an interpreter adds is the name of a
  \<open>str\<close> method.
\<close>

definition lstr_dict :: "string list" where
  "lstr_dict =
     [''__module__'', ''__doc__'', ''__new__'', ''logits'', ''_origin_trace'',
      ''__repr__'', ''__add__'', ''__mod__'', ''__mul__'', ''__rmul__'', ''__getitem__'',
      ''__getattribute__'', ''join'', ''split'', ''rsplit'', ''splitlines'', ''partition'',
      ''rpartition'', ''_partition_helper'', ''_split_helper'']"

text \<open>
  The closure \<open>wrapped\<close> of \<open>__getattribute__\<close>: it calls the attribute, and wraps a
  result that is a string with the receiver's markers and those of every \<open>lstr\<close> among
  the positional arguments and the keyword values.
\<close>

definition wrapped ::
  "'l lstr \<Rightarrow> ('l pyval list \<Rightarrow> (string \<times> 'l pyval) list \<Rightarrow> pyerr + 'l pyval) \<Rightarrow>
   'l pyval list \<Rightarrow> (string \<times> 'l pyval) list \<Rightarrow> pyerr + 'l pyval" where
  "wrapped self attr args kwargs =
     (case attr args kwargs of
        Inl e \<Rightarrow> Inl e
      | Inr result \<Rightarrow>
          if is_str result
          then Inr (PLstr (lstr_new (text_of result) None
                 (OSet (collect_origins (collect_origins (origin_trace self) args)
                          (map snd kwargs)))))
          else Inr result)"

text \<open>
  \<open>__getattribute__\<close>: \<open>base\<close> is \<open>super().__getattribute__\<close>, the interpreter's own
  attribute lookup on the instance, which may raise \<open>AttributeError\<close>.
\<close>

definition lstr_getattribute ::
  "('l lstr \<Rightarrow> string \<Rightarrow> pyerr + 'l attr) \<Rightarrow> 'l lstr \<Rightarrow> string \<Rightarrow> pyerr + 'l attr" where
  "lstr_getattribute base self name =
     (case base self name of
        Inl e \<Rightarrow> Inl e
      | Inr attr \<Rightarrow>
          if name = ''__class__'' then Inr (Plain (PClass ''lstr''))
          else (case attr of
                  Callable f \<Rightarrow>
                    if name \<notin> set lstr_dict then Inr (Callable (wrapped self f))
                    else Inr attr
                | Plain v \<Rightarrow> Inr attr))"

subsection \<open>The interpreter's dispatch of \<open>+\<close> on strings\<close>

text \<open>
  \<open>str.__add__(s, other)\<close> accepts any string object on the right and returns an object
  whose type is exactly \<open>str\<close>.
\<close>

definition str_add :: "string \<Rightarrow> 'l pyval \<Rightarrow> pyerr + 'l pyval" where
  "str_add s other = (if is_str other then Inr (PStr (s @ text_of other)) else Inl TypeError)"

text \<open>
  The expression \<open>a + right\<close> with an \<open>lstr\<close> on the left: \<open>lstr.__add__\<close> runs; when it
  answers \<open>NotImplemented\<close> the interpreter would try a reflected method of the right
  operand, which no value of \<open>pyval\<close> has, and raises \<open>TypeError\<close>.
\<close>

definition lstr_plus :: "'l lstr \<Rightarrow> 'l pyval \<Rightarrow> pyerr + 'l pyval" where
  "lstr_plus a right =
     (let r = lstr_add a right in if r = PNotImplemented then Inl TypeError else Inr r)"

text \<open>
  The expression \<open>s + right\<close> with a plain string on the left. The interpreter gives the
  right operand the first turn only when its class has a reflected method \<open>__radd__\<close>:
  the class body of \<open>lstr\<close> binds \<open>__rmul__\<close> but no \<open>__radd__\<close> (see \<open>lstr_dict\<close>), and
  \<open>str\<close> has none, so \<open>str.__add__\<close> runs whatever the right operand is.
\<close>

definition str_plus :: "string \<Rightarrow> 'l pyval \<Rightarrow> pyerr + 'l pyval" where
  "str_plus s right = str_add s right"

subsection \<open>Concrete built-ins for evaluation\<close>

text \<open>
  The parameters above stand for built-ins of the interpreter. The definitions of this
  section are fragments of them, used to run the model on concrete inputs: the decimal
  form of an integer, \<open>str\<close> of \<open>None\<close>, booleans and integers, the conversions \<open>%s\<close>,
  \<open>%d\<close> and \<open>%%\<close> of \<open>str.__mod__\<close>, and the methods \<open>upper\<close> (on ASCII letters),
  \<open>startswith\<close> and \<open>replace\<close>.
\<close>

definition digit_char :: "nat \<Rightarrow> char" where
  "digit_char d = ''0123456789'' ! d"

function show_nat :: "nat \<Rightarrow> string" where
  "show_nat n = (if n < 10 then [digit_char n] else show_nat (n div 10) @ [digit_char (n mod 10)])"
  by pat_completeness auto
termination
  by (relation "measure id") auto

declare show_nat.simps [simp del]

definition show_int :: "int \<Rightarrow> string" where
  "show_int i = (if i < 0 then CHR ''-'' # show_nat (nat (- i)) else show_nat (nat i))"

fun scalar_str :: "'l pyval \<Rightarrow> string" where
  "scalar_str PNone = ''None''"
| "scalar_str (PBool b) = (if b then ''True'' else ''False'')"
| "scalar_str (PInt i) = show_int i"
| "scalar_str v = []"

text \<open>
  \<open>fmt_args\<close> walks the template with the arguments still to be consumed. \<open>%d\<close> needs a
  number; arguments left over, or missing, raise \<open>TypeError\<close>.
\<close>

fun fmt_args :: "string \<Rightarrow> 'l pyval list \<Rightarrow> pyerr + string" where
  "fmt_args [] [] = Inr []"
| "fmt_args [] (a # as) = Inl TypeError"
| "fmt_args [c] as =
     (if c = CHR ''%'' then Inl ValueError
      else case fmt_args [] as of Inl e \<Rightarrow> Inl e | Inr r \<Rightarrow> Inr (c # r))"
| "fmt_args (c # d # cs) as =
     (if c \<noteq> CHR ''%'' then
        (case fmt_args (d # cs) as of Inl e \<Rightarrow> Inl e | Inr r \<Rightarrow> Inr (c # r))
      else if d = CHR ''%'' then
        (case fmt_args cs as of Inl e \<Rightarrow> Inl e | Inr r \<Rightarrow> Inr (CHR ''%'' # r))
      else if d = CHR ''s'' then
        (case as of
           [] \<Rightarrow> Inl TypeError
         | a # rest \<Rightarrow>
             (case fmt_args cs rest of
                Inl e \<Rightarrow> Inl e
              | Inr r \<Rightarrow> Inr (py_str scalar_str a @ r)))
      else if d = CHR ''d'' then
        (case as of
           [] \<Rightarrow> Inl TypeError
         | a # rest \<Rightarrow>
             (case supports_index a of
                None \<Rightarrow> Inl TypeError
              | Some i \<Rightarrow>
                  (case fmt_args cs rest of
                     Inl e \<Rightarrow> Inl e
                   | Inr r \<Rightarrow> Inr (show_int i @ r))))
      else Inl ValueError)"

definition fmt_sd :: "string \<Rightarrow> 'l pyval \<Rightarrow> pyerr + string" where
  "fmt_sd template other =
     (case other of PTuple items \<Rightarrow> fmt_args template items | _ \<Rightarrow> fmt_args template [other])"

definition ascii_upper :: "char \<Rightarrow> char" where
  "ascii_upper c =
     (case map_of (zip ''abcdefghijklmnopqrstuvwxyz'' ''ABCDEFGHIJKLMNOPQRSTUVWXYZ'') c of
        Some u \<Rightarrow> u
      | None \<Rightarrow> c)"

text \<open>
  Three built-in methods bound to a text, and attribute lookup on a string for them; any
  other name raises \<open>AttributeError\<close> here.
\<close>

definition str_upper :: "string \<Rightarrow> 'l pyval list \<Rightarrow> (string \<times> 'l pyval) list \<Rightarrow> pyerr + 'l pyval" where
  "str_upper s args kwargs =
     (if args = [] \<and> kwargs = [] then Inr (PStr (map ascii_upper s)) else Inl TypeError)"

definition str_startswith :: "string \<Rightarrow> 'l pyval list \<Rightarrow> (string \<times> 'l pyval) list \<Rightarrow> pyerr + 'l pyval" where
  "str_startswith s args kwargs =
     (case (args, kwargs) of
        ([p], []) \<Rightarrow> if is_str p then Inr (PBool (starts_with (text_of p) s)) else Inl TypeError
      | _ \<Rightarrow> Inl TypeError)"

definition str_replace :: "string \<Rightarrow> 'l pyval list \<Rightarrow> (string \<times> 'l pyval) list \<Rightarrow> pyerr + 'l pyval" where
  "str_replace s args kwargs =
     (case (args, kwargs) of
        ([old, new], []) \<Rightarrow>
          if is_str old \<and> is_str new \<and> text_of old \<noteq> []
          then Inr (PStr (str_join (text_of new) (split_sep (text_of old) (- 1) [] s)))
          else Inl TypeError
      | _ \<Rightarrow> Inl TypeError)"

definition sample_getattribute :: "'l lstr \<Rightarrow> string \<Rightarrow> pyerr + 'l attr" where
  "sample_getattribute self name =
     (if name = ''upper'' then Inr (Callable (str_upper (content self)))
      else if name = ''startswith'' then Inr (Callable (str_startswith (content self)))
      else if name = ''replace'' then Inr (Callable (str_replace (content self)))
      else Inl AttributeError)"

section \<open>Properties\<close>

subsection \<open>Concatenation\<close>

text \<open>
  C1. For provenance strings \<open>a\<close> and \<open>b\<close>, \<open>a + b\<close> is a provenance string whose text
  is the concatenation of the two texts, whose scores are absent whatever the scores
  of \<open>a\<close> and \<open>b\<close> were, and whose markers are the union of both marker sets. With a
  plain string on the right the markers are those of \<open>a\<close> alone.
\<close>

theorem lstr_add_content_scores_origins:
  "lstr_add a (PLstr b) =
     PLstr \<lparr>content = content a @ content b, logits = None,
            origin_trace = origin_trace a \<union> origin_trace b\<rparr>
   \<and> lstr_add a (PStr s) =
     PLstr \<lparr>content = content a @ s, logits = None, origin_trace = origin_trace a\<rparr>"
  by simp

lemma lstr_add_example:
  "lstr_add \<lparr>content = ''Hello'', logits = Some [1, 2, 3 :: int], origin_trace = {''m1''}\<rparr>
     (PLstr \<lparr>content = ''World'', logits = None, origin_trace = {''m2''}\<rparr>)
   = PLstr \<lparr>content = ''HelloWorld'', logits = None, origin_trace = {''m1'', ''m2''}\<rparr>"
  by (simp add: insert_commute)

text \<open>
  C10, as amended. The tests on the right operand of \<open>+\<close> are \<open>type(other) is str\<close> and
  \<open>isinstance(other, lstr)\<close>. An instance of a strict subclass of \<open>str\<close> that is neither
  \<open>lstr\<close> nor a subclass of \<open>lstr\<close> is a string value and is answered with
  \<open>NotImplemented\<close> all the same. An instance of a strict subclass of \<open>lstr\<close> passes
  the second test and is concatenated like an \<open>lstr\<close>.
\<close>

theorem lstr_add_subclass_operands:
  "is_str (PStrSub s :: 'l pyval)
   \<and> \<not> is_lstr (PStrSub s :: 'l pyval)
   \<and> lstr_add (a :: 'l lstr) (PStrSub s) = PNotImplemented
   \<and> is_lstr (PLstrSub b)
   \<and> lstr_add a (PLstrSub b) =
       PLstr \<lparr>content = content a @ content b, logits = None,
              origin_trace = origin_trace a \<union> origin_trace b\<rparr>"
  by simp

text \<open>
  C10 as stated covers every strict subclass of \<open>str\<close> other than \<open>lstr\<close> itself. A
  strict subclass of \<open>lstr\<close> is one, and its instance on the right of \<open>+\<close> is not
  answered with \<open>NotImplemented\<close>.
\<close>

theorem lstr_add_lstr_subclass_concatenates:
  "is_str (PLstrSub \<lparr>content = ''b'', logits = None :: int list option, origin_trace = {''m2''}\<rparr>)
   \<and> lstr_add \<lparr>content = ''a'', logits = None :: int list option, origin_trace = {''m1''}\<rparr>
        (PLstrSub \<lparr>content = ''b'', logits = None, origin_trace = {''m2''}\<rparr>)
      = PLstr \<lparr>content = ''ab'', logits = None, origin_trace = {''m1'', ''m2''}\<rparr>
   \<and> lstr_add \<lparr>content = ''a'', logits = None :: int list option, origin_trace = {''m1''}\<rparr>
        (PLstrSub \<lparr>content = ''b'', logits = None, origin_trace = {''m2''}\<rparr>)
      \<noteq> PNotImplemented"
  by (simp add: insert_commute)

subsection \<open>Repetition\<close>

lemma le_div_iff_mult_le:
  fixes a b n :: int
  assumes "0 < n"
  shows "a \<le> b div n \<longleftrightarrow> a * n \<le> b"
proof
  assume "a \<le> b div n"
  then have "a * n \<le> (b div n) * n"
    using assms by (simp add: mult_right_mono)
  also have "(b div n) * n = b - b mod n"
    by (simp add: minus_mod_eq_div_mult)
  also have "\<dots> \<le> b"
    using assms by simp
  finally show "a * n \<le> b" .
next
  assume "a * n \<le> b"
  then have "(a * n) div n \<le> b div n"
    using assms by (rule zdiv_mono1)
  then show "a \<le> b div n"
    using assms by simp
qed

lemma str_mul_value:
  "str_mul s n =
     (if index_sized n \<and> (n \<le> 1 \<or> int (length s) * n \<le> ssize_max)
      then Inr (concat (replicate (nat n) s))
      else Inl OverflowError)"
proof (cases "2 \<le> n")
  case True
  then have "int (length s) > ssize_max div n \<longleftrightarrow> \<not> int (length s) * n \<le> ssize_max"
    using le_div_iff_mult_le[of n "int (length s)" ssize_max] by auto
  with True show ?thesis
    by (simp add: str_mul_def)
next
  case False
  then have "n < 1 \<or> n = 1" by auto
  then show ?thesis
    by (auto simp: str_mul_def)
qed

text \<open>
  C6, as amended. For an integer \<open>n\<close> that is index-sized and for which the repeated
  text is not longer than the largest index-sized integer (in particular for
  \<open>0 \<le> n \<le> 1\<close>), \<open>a * n\<close> is a provenance string whose text is the text of \<open>a\<close>
  repeated \<open>n\<close> times, with absent scores and the markers of \<open>a\<close>; for any other \<open>n\<close>
  it raises \<open>OverflowError\<close>, as the plain repetition does. The reflected \<open>n * a\<close>
  behaves as \<open>a * n\<close> in every case.
\<close>

theorem lstr_mul_repeats_or_overflows:
  "lstr_mul a (PInt n) =
     (if index_sized n \<and> (n \<le> 1 \<or> int (length (content a)) * n \<le> ssize_max)
      then Inr (PLstr \<lparr>content = concat (replicate (nat n) (content a)), logits = None,
                       origin_trace = origin_trace a\<rparr>)
      else Inl OverflowError)
   \<and> lstr_rmul a (PInt n) = lstr_mul a (PInt n)"
  by (simp add: lstr_mul_def lstr_rmul_def str_mul_value)

lemma lstr_mul_example:
  "lstr_mul \<lparr>content = ''ab'', logits = Some [1, 2 :: int], origin_trace = {''m1''}\<rparr> (PInt 3)
   = Inr (PLstr \<lparr>content = ''ababab'', logits = None, origin_trace = {''m1''}\<rparr>)
   \<and> lstr_rmul \<lparr>content = ''ab'', logits = Some [1, 2 :: int], origin_trace = {''m1''}\<rparr> (PInt 0)
   = Inr (PLstr \<lparr>content = [], logits = None, origin_trace = {''m1''}\<rparr>)"
  by (simp add: lstr_mul_def lstr_rmul_def str_mul_def index_sized_def ssize_max_def
      eval_nat_numeral)

text \<open>
  C6 as stated ranges over every integer \<open>n \<ge> 0\<close>. The count \<open>2\<^sup>6\<^sup>3\<close> is not
  index-sized: the repetition raises \<open>OverflowError\<close> even for the empty text, in both
  operand orders, and there is no result.
\<close>

theorem lstr_mul_overflow:
  "(0 :: int) \<le> 9223372036854775808
   \<and> lstr_mul \<lparr>content = [], logits = None :: int list option, origin_trace = {''m1''}\<rparr>
        (PInt 9223372036854775808) = Inl OverflowError
   \<and> lstr_rmul \<lparr>content = [], logits = None :: int list option, origin_trace = {''m1''}\<rparr>
        (PInt 9223372036854775808) = Inl OverflowError"
  by (simp add: lstr_mul_def lstr_rmul_def str_mul_def index_sized_def ssize_max_def)

subsection \<open>Indexing and slicing\<close>

lemma str_slice_full: "str_slice s None None None = Inr s"
  by (simp add: str_slice_def slice_length_def map_nth)

text \<open>
  C3. For every key \<open>k\<close>, \<open>a[k]\<close> raises what the plain indexing raises, and otherwise
  is the plain result wrapped with absent scores and the markers of \<open>a\<close>, whatever the
  scores of \<open>a\<close> were; the full-range slice \<open>a[:]\<close> keeps the text and drops the scores
  as well.
\<close>

theorem lstr_getitem_drops_scores_keeps_origins:
  "lstr_getitem a k =
     (case str_getitem (content a) k of
        Inl e \<Rightarrow> Inl e
      | Inr r \<Rightarrow> Inr \<lparr>content = r, logits = None, origin_trace = origin_trace a\<rparr>)
   \<and> lstr_getitem a (PSlice None None None) =
     Inr \<lparr>content = content a, logits = None, origin_trace = origin_trace a\<rparr>"
  by (simp add: lstr_getitem_def str_slice_full split: sum.splits)

lemma lstr_getitem_example:
  "lstr_getitem \<lparr>content = ''Hello'', logits = Some [1, 2, 3 :: int], origin_trace = {''m1''}\<rparr>
     (PSlice (Some 1) (Some 4) None)
   = Inr \<lparr>content = ''ell'', logits = None, origin_trace = {''m1''}\<rparr>
   \<and> lstr_getitem \<lparr>content = ''Hello'', logits = Some [1, 2, 3 :: int], origin_trace = {''m1''}\<rparr>
     (PInt (- 1))
   = Inr \<lparr>content = ''o'', logits = None, origin_trace = {''m1''}\<rparr>
   \<and> lstr_getitem \<lparr>content = ''Hello'', logits = Some [1, 2, 3 :: int], origin_trace = {''m1''}\<rparr>
     (PInt 5)
   = Inl IndexError"
  by (simp add: lstr_getitem_def str_slice_def str_index_def adjust_bound_def
      slice_length_def upt_conv_Cons)

subsection \<open>Generic interception\<close>

lemma origins_of_not_lstr: "\<not> is_lstr v \<Longrightarrow> origins_of v = {}"
  by (cases v) auto

lemma collect_origins_union:
  "collect_origins acc items = acc \<union> \<Union> (origins_of ` set items)"
proof (induction items arbitrary: acc)
  case Nil
  show ?case by simp
next
  case (Cons item items)
  show ?case
    by (cases "is_lstr item") (auto simp: Cons.IH origins_of_not_lstr)
qed

lemma wrapped_result:
  "wrapped self m args kwargs =
     (case m args kwargs of
        Inl e \<Rightarrow> Inl e
      | Inr r \<Rightarrow>
          if is_str r
          then Inr (PLstr \<lparr>content = text_of r, logits = None,
                 origin_trace = origin_trace self \<union> \<Union> (origins_of ` set args)
                   \<union> \<Union> (origins_of ` snd ` set kwargs)\<rparr>)
          else Inr r)"
  by (simp add: wrapped_def collect_origins_union split: sum.splits)

text \<open>
  C2. Let \<open>name\<close> be an attribute that the plain lookup finds as a callable \<open>m\<close> and
  that the class body does not bind (a read-only string method without a rule of its
  own, such as \<open>upper\<close>, \<open>strip\<close> or \<open>replace\<close>). Looking it up on a provenance string
  gives a callable that calls \<open>m\<close> with the same arguments: an exception of \<open>m\<close>
  propagates; a result that is text comes back as a provenance string with that text,
  absent scores, and the receiver's markers united with the markers of every provenance
  string among the positional arguments and the keyword values; a result that is not
  text comes back unchanged. The witness is the scenario of the specification: for
  \<open>a\<close> with text \<open>Hello\<close>, scores and the marker \<open>m1\<close>, \<open>a.upper()\<close> has text \<open>HELLO\<close>,
  the marker \<open>m1\<close> and no scores.
\<close>

theorem generic_method_wrapping:
  assumes "base self name = Inr (Callable m)"
    and "name \<notin> set lstr_dict"
    and "name \<noteq> ''__class__''"
  shows "lstr_getattribute base self name = Inr (Callable (wrapped self m))
    \<and> (\<forall>args kwargs.
          wrapped self m args kwargs =
            (case m args kwargs of
               Inl e \<Rightarrow> Inl e
             | Inr r \<Rightarrow>
                 if is_str r
                 then Inr (PLstr \<lparr>content = text_of r, logits = None,
                        origin_trace = origin_trace self \<union> \<Union> (origins_of ` set args)
                          \<union> \<Union> (origins_of ` snd ` set kwargs)\<rparr>)
                 else Inr r))"
  using assms by (simp add: lstr_getattribute_def wrapped_result)

theorem generic_method_wrapping_witness:
  "sample_getattribute
     \<lparr>content = ''Hello'', logits = Some [1, 2, 3 :: int], origin_trace = {''m1''}\<rparr> ''upper''
     = Inr (Callable (str_upper ''Hello''))
   \<and> ''upper'' \<notin> set lstr_dict
   \<and> ''upper'' \<noteq> ''__class__''
   \<and> lstr_getattribute sample_getattribute
     \<lparr>content = ''Hello'', logits = Some [1, 2, 3 :: int], origin_trace = {''m1''}\<rparr> ''upper''
     = Inr (Callable (wrapped
         \<lparr>content = ''Hello'', logits = Some [1, 2, 3 :: int], origin_trace = {''m1''}\<rparr>
         (str_upper ''Hello'')))
   \<and> wrapped \<lparr>content = ''Hello'', logits = Some [1, 2, 3 :: int], origin_trace = {''m1''}\<rparr>
         (str_upper ''Hello'') [] []
     = Inr (PLstr \<lparr>content = ''HELLO'', logits = None, origin_trace = {''m1''}\<rparr>)"
proof -
  let ?a = "\<lparr>content = ''Hello'', logits = Some [1, 2, 3 :: int], origin_trace = {''m1''}\<rparr>"
  have h1: "sample_getattribute ?a ''upper'' = Inr (Callable (str_upper ''Hello''))"
    by (simp add: sample_getattribute_def)
  have h2: "''upper'' \<notin> set lstr_dict"
    by (simp add: lstr_dict_def)
  have h3: "''upper'' \<noteq> ''__class__''"
    by simp
  have up: "str_upper ''Hello'' [] [] = Inr (PStr ''HELLO'' :: int list pyval)"
    by (simp add: str_upper_def ascii_upper_def)
  from generic_method_wrapping[of sample_getattribute ?a "''upper''" "str_upper ''Hello''", OF h1 h2 h3]
    h1 h2 up show ?thesis
    by simp
qed

lemma wrapped_examples:
  "wrapped \<lparr>content = ''Hello'', logits = Some [1, 2, 3 :: int], origin_trace = {''m1''}\<rparr>
     (str_replace ''Hello'')
     [PStr ''l'', PLstr \<lparr>content = ''L'', logits = None, origin_trace = {''m2''}\<rparr>] []
   = Inr (PLstr \<lparr>content = ''HeLLo'', logits = None, origin_trace = {''m1'', ''m2''}\<rparr>)
   \<and> wrapped \<lparr>content = ''Hello'', logits = Some [1, 2, 3 :: int], origin_trace = {''m1''}\<rparr>
     (str_startswith ''Hello'') [PStr ''He''] []
   = Inr (PBool True)"
  by (simp add: wrapped_def str_replace_def str_startswith_def starts_with_def insert_commute
      split_sep.simps)

subsection \<open>Splitting and joining\<close>

lemma starts_with_append: "starts_with sep s \<Longrightarrow> s = sep @ drop (length sep) s"
  unfolding starts_with_def by (metis append_take_drop_id)

lemma split_sep_nonempty: "split_sep sep n acc s \<noteq> []"
proof (induction sep n acc s rule: split_sep.induct)
  case (1 sep n acc s)
  then show ?case
    by (subst split_sep.simps) (auto split: list.splits)
qed

lemma str_join_Cons: "xs \<noteq> [] \<Longrightarrow> str_join sep (x # xs) = x @ sep @ str_join sep xs"
  by (cases xs) simp_all

lemma str_join_split_sep: "str_join sep (split_sep sep n acc s) = acc @ s"
proof (induction sep n acc s rule: split_sep.induct)
  case (1 sep n acc s)
  show ?case
  proof (cases "n = 0")
    case True
    then show ?thesis by (subst split_sep.simps) simp
  next
    case n: False
    show ?thesis
    proof (cases s)
      case Nil
      with n show ?thesis by (subst split_sep.simps) simp
    next
      case (Cons c cs)
      show ?thesis
      proof (cases "sep \<noteq> [] \<and> starts_with sep s")
        case True
        then have s: "s = sep @ drop (length sep) s"
          using starts_with_append by blast
        have ih: "str_join sep (split_sep sep (if n < 0 then n else n - 1) [] (drop (length sep) s))
                  = drop (length sep) s"
          using "1.IH"(1)[OF n Cons] True by simp
        have "split_sep sep n acc s =
                acc # split_sep sep (if n < 0 then n else n - 1) [] (drop (length sep) s)"
          using n Cons True by (subst split_sep.simps) simp
        then have "str_join sep (split_sep sep n acc s) = acc @ sep @ drop (length sep) s"
          using ih by (simp add: str_join_Cons split_sep_nonempty)
        with s show ?thesis by simp
      next
        case False
        then have "split_sep sep n acc s = split_sep sep n (acc @ [c]) cs"
          using n Cons by (subst split_sep.simps) auto
        moreover have "str_join sep (split_sep sep n (acc @ [c]) cs) = (acc @ [c]) @ cs"
          using "1.IH"(2)[OF n Cons] False by blast
        ultimately show ?thesis using Cons by simp
      qed
    qed
  qed
qed

lemma index_sized_minus_one: "index_sized (- 1)"
  by (simp add: index_sized_def ssize_max_def)

lemma lstr_split_plain:
  "sep \<noteq> [] \<Longrightarrow> index_sized n \<Longrightarrow>
   lstr_split a (PStr sep) n =
     Inr (map (\<lambda>part. \<lparr>content = part, logits = None, origin_trace = origin_trace a\<rparr>)
            (split_sep sep n [] (content a)))"
  by (simp add: lstr_split_def split_helper_def str_split_def)

text \<open>
  C5, as amended. For every provenance string \<open>a\<close> and every plain separator \<open>sep\<close>
  that is not empty, \<open>a.split(sep)\<close> returns fragments that each carry exactly the
  markers of \<open>a\<close> and no scores, and joining the fragments with \<open>sep\<close> (by the \<open>join\<close>
  of a provenance string \<open>j\<close> whose text is \<open>sep\<close>, or by the plain \<open>join\<close>) gives back
  the text of \<open>a\<close>.
\<close>

theorem split_join_round_trip:
  assumes "sep \<noteq> []" and "content j = sep"
  shows "\<exists>frags. lstr_split (a :: 'l lstr) (PStr sep) (- 1) = Inr frags
           \<and> list_all (\<lambda>f. origin_trace f = origin_trace a \<and> logits f = None) frags
           \<and> content (lstr_join object_str j (map PLstr frags)) = content a
           \<and> str_join sep (map content frags) = content a"
proof -
  let ?frags = "map (\<lambda>part. \<lparr>content = part, logits = None :: 'l option,
                                 origin_trace = origin_trace a\<rparr>)
                  (split_sep sep (- 1) [] (content a))"
  have split: "lstr_split a (PStr sep) (- 1) = Inr ?frags"
    using assms(1) index_sized_minus_one by (rule lstr_split_plain)
  have all: "list_all (\<lambda>f. origin_trace f = origin_trace a \<and> logits f = None) ?frags"
    by (simp add: list_all_iff)
  have texts: "map content ?frags = split_sep sep (- 1) [] (content a)"
    by (simp add: comp_def)
  have plain: "str_join sep (map content ?frags) = content a"
    by (simp only: texts str_join_split_sep append_Nil)
  have strs: "map (py_str object_str) (map PLstr ?frags) = map content ?frags"
    by (simp add: py_str_def comp_def)
  have "content (lstr_join object_str j (map PLstr ?frags)) =
          str_join (content j) (map (py_str object_str) (map PLstr ?frags))"
    by (simp add: lstr_join_def del: map_map)
  also have "\<dots> = str_join sep (map content ?frags)"
    by (simp only: strs assms(2))
  finally have joined: "content (lstr_join object_str j (map PLstr ?frags)) = content a"
    by (simp only: plain)
  from split all joined plain show ?thesis by blast
qed

theorem split_join_round_trip_witness:
  "'','' \<noteq> []
   \<and> content \<lparr>content = '','', logits = None :: int list option, origin_trace = {}\<rparr> = '',''
   \<and> (\<exists>frags. lstr_split \<lparr>content = ''a,b,,c'', logits = Some [1, 2 :: int], origin_trace = {''x''}\<rparr>
          (PStr '','') (- 1) = Inr frags
        \<and> frags = [\<lparr>content = ''a'', logits = None, origin_trace = {''x''}\<rparr>,
                   \<lparr>content = ''b'', logits = None, origin_trace = {''x''}\<rparr>,
                   \<lparr>content = [], logits = None, origin_trace = {''x''}\<rparr>,
                   \<lparr>content = ''c'', logits = None, origin_trace = {''x''}\<rparr>]
        \<and> list_all (\<lambda>f. origin_trace f = {''x''} \<and> logits f = None) frags
        \<and> content (lstr_join scalar_str
              \<lparr>content = '','', logits = None, origin_trace = {}\<rparr> (map PLstr frags)) = ''a,b,,c'')"
proof -
  let ?a = "\<lparr>content = ''a,b,,c'', logits = Some [1, 2 :: int], origin_trace = {''x''}\<rparr>"
  let ?j = "\<lparr>content = '','', logits = None :: int list option, origin_trace = {}\<rparr>"
  have h1: "'','' \<noteq> []" by simp
  have h2: "content ?j = '',''" by simp
  have ev: "lstr_split ?a (PStr '','') (- 1) =
      Inr [\<lparr>content = ''a'', logits = None, origin_trace = {''x''}\<rparr>,
           \<lparr>content = ''b'', logits = None, origin_trace = {''x''}\<rparr>,
           \<lparr>content = [], logits = None, origin_trace = {''x''}\<rparr>,
           \<lparr>content = ''c'', logits = None, origin_trace = {''x''}\<rparr>]"
    by (simp add: lstr_split_plain index_sized_minus_one split_sep.simps starts_with_def)
  from split_join_round_trip[OF h1 h2, of ?a scalar_str] ev h1 show ?thesis
    by auto
qed

text \<open>
  C5 as stated ranges over every plain separator. The empty string is one, and
  splitting at it raises \<open>ValueError\<close>, as the plain \<open>split\<close> does: there are no
  fragments.
\<close>

theorem split_empty_separator_raises:
  "lstr_split \<lparr>content = ''a,b'', logits = None :: int list option, origin_trace = {''x''}\<rparr>
     (PStr []) (- 1) = Inl ValueError"
  by (simp add: lstr_split_def split_helper_def str_split_def index_sized_minus_one)

subsection \<open>Partition\<close>

lemma starts_with_iff: "starts_with sep s \<longleftrightarrow> (\<exists>v. s = sep @ v)"
  unfolding starts_with_def
  by (metis append_eq_conv_conj append_take_drop_id)

lemma find_sub_None: "find_sub sep s = None \<Longrightarrow> s \<noteq> u @ sep @ v"
proof (induction s arbitrary: u)
  case Nil
  then show ?case by (auto split: if_splits)
next
  case (Cons c cs)
  from Cons.prems have ns: "\<not> starts_with sep (c # cs)" and rec: "find_sub sep cs = None"
    by (auto split: if_splits)
  show ?case
  proof (cases u)
    case Nil
    with ns show ?thesis by (auto simp: starts_with_iff)
  next
    case (Cons d u')
    with Cons.IH[OF rec, of u'] show ?thesis by auto
  qed
qed

lemma find_sub_Some:
  "find_sub sep s = Some i \<Longrightarrow> s = take i s @ sep @ drop (i + length sep) s"
proof (induction s arbitrary: i)
  case Nil
  then show ?case by (auto split: if_splits)
next
  case (Cons c cs)
  show ?case
  proof (cases "starts_with sep (c # cs)")
    case True
    with Cons.prems have "i = 0" by simp
    with True show ?thesis
      unfolding starts_with_def by (metis add_0 append_Nil append_take_drop_id take0)
  next
    case False
    with Cons.prems obtain k where k: "find_sub sep cs = Some k" "i = Suc k"
      by auto
    with Cons.IH[OF k(1)] show ?thesis by simp
  qed
qed

lemma find_sub_least: "find_sub sep s = Some i \<Longrightarrow> s = u @ sep @ v \<Longrightarrow> i \<le> length u"
proof (induction s arbitrary: i u)
  case Nil
  then show ?case by (auto split: if_splits)
next
  case (Cons c cs)
  show ?case
  proof (cases "starts_with sep (c # cs)")
    case True
    with Cons.prems(1) have "i = 0" by simp
    then show ?thesis by simp
  next
    case False
    with Cons.prems(1) obtain k where k: "find_sub sep cs = Some k" "i = Suc k"
      by auto
    from False Cons.prems(2) obtain d u' where u: "u = d # u'"
      by (cases u) (auto simp: starts_with_iff)
    with Cons.prems(2) have "cs = u' @ sep @ v" by simp
    from Cons.IH[OF k(1) this] k u show ?thesis by simp
  qed
qed

lemma rfind_sub_None: "rfind_sub sep s = None \<Longrightarrow> s \<noteq> u @ sep @ v"
proof (induction s arbitrary: u)
  case Nil
  then show ?case by (auto split: if_splits)
next
  case (Cons c cs)
  from Cons.prems have ns: "\<not> starts_with sep (c # cs)" and rec: "rfind_sub sep cs = None"
    by (auto split: if_splits option.splits)
  show ?case
  proof (cases u)
    case Nil
    with ns show ?thesis by (auto simp: starts_with_iff)
  next
    case (Cons d u')
    with Cons.IH[OF rec, of u'] show ?thesis by auto
  qed
qed

lemma rfind_sub_Some:
  "rfind_sub sep s = Some i \<Longrightarrow> s = take i s @ sep @ drop (i + length sep) s"
proof (induction s arbitrary: i)
  case Nil
  then show ?case by (auto split: if_splits)
next
  case (Cons c cs)
  show ?case
  proof (cases "rfind_sub sep cs")
    case None
    with Cons.prems have "starts_with sep (c # cs)" "i = 0"
      by (auto split: if_splits)
    then show ?thesis
      unfolding starts_with_def by (metis add_0 append_Nil append_take_drop_id take0)
  next
    case (Some k)
    with Cons.prems have "i = Suc k" by simp
    with Cons.IH[OF Some] show ?thesis by simp
  qed
qed

lemma rfind_sub_greatest:
  "rfind_sub sep s = Some i \<Longrightarrow> s = u @ sep @ v \<Longrightarrow> length u \<le> i"
proof (induction s arbitrary: i u)
  case Nil
  then show ?case by (auto split: if_splits)
next
  case (Cons c cs)
  show ?case
  proof (cases u)
    case Nil
    then show ?thesis by simp
  next
    case u: (Cons d u')
    with Cons.prems(2) have cs: "cs = u' @ sep @ v" by simp
    then obtain k where k: "rfind_sub sep cs = Some k"
      using rfind_sub_None[of sep cs u' v] by (cases "rfind_sub sep cs") auto
    with Cons.prems(1) have "i = Suc k" by simp
    with Cons.IH[OF k cs] u show ?thesis by simp
  qed
qed

lemma partition_helper_str:
  "partition_helper method a sep =
     (case method sep of
        Inl e \<Rightarrow> Inl e
      | Inr (p1, p2, p3) \<Rightarrow>
          Inr (\<lparr>content = p1, logits = None, origin_trace = origin_trace a \<union> origins_of sep\<rparr>,
               \<lparr>content = p2, logits = None, origin_trace = origin_trace a \<union> origins_of sep\<rparr>,
               \<lparr>content = p3, logits = None, origin_trace = origin_trace a \<union> origins_of sep\<rparr>))"
  by (cases "is_lstr sep")
     (simp_all add: partition_helper_def Let_def origins_of_not_lstr split: sum.splits prod.splits)

lemma str_partition_found:
  assumes "is_str sep" and "text_of sep \<noteq> []" and "s = u @ text_of sep @ v"
  shows "\<exists>p1 p3. str_partition s sep = Inr (p1, text_of sep, p3)
           \<and> s = p1 @ text_of sep @ p3
           \<and> (\<forall>u' v'. s = u' @ text_of sep @ v' \<longrightarrow> length p1 \<le> length u')"
proof -
  obtain i where i: "find_sub (text_of sep) s = Some i"
    using find_sub_None[of "text_of sep" s u v] assms(3)
    by (cases "find_sub (text_of sep) s") auto
  have "str_partition s sep =
          Inr (take i s, text_of sep, drop (i + length (text_of sep)) s)"
    using assms(1,2) i by (simp add: str_partition_def)
  moreover have dec: "s = take i s @ text_of sep @ drop (i + length (text_of sep)) s"
    using find_sub_Some[OF i] .
  moreover have "\<forall>u' v'. s = u' @ text_of sep @ v' \<longrightarrow> length (take i s) \<le> length u'"
  proof (intro allI impI)
    fix u' v' assume "s = u' @ text_of sep @ v'"
    then have "i \<le> length u'" using find_sub_least[OF i] by blast
    then show "length (take i s) \<le> length u'" by simp
  qed
  ultimately show ?thesis by blast
qed

lemma str_rpartition_found:
  assumes "is_str sep" and "text_of sep \<noteq> []" and "s = u @ text_of sep @ v"
  shows "\<exists>q1 q3. str_rpartition s sep = Inr (q1, text_of sep, q3)
           \<and> s = q1 @ text_of sep @ q3
           \<and> (\<forall>u' v'. s = u' @ text_of sep @ v' \<longrightarrow> length u' \<le> length q1)"
proof -
  obtain i where i: "rfind_sub (text_of sep) s = Some i"
    using rfind_sub_None[of "text_of sep" s u v] assms(3)
    by (cases "rfind_sub (text_of sep) s") auto
  have "str_rpartition s sep =
          Inr (take i s, text_of sep, drop (i + length (text_of sep)) s)"
    using assms(1,2) i by (simp add: str_rpartition_def)
  moreover have dec: "s = take i s @ text_of sep @ drop (i + length (text_of sep)) s"
    using rfind_sub_Some[OF i] .
  moreover have "\<forall>u' v'. s = u' @ text_of sep @ v' \<longrightarrow> length u' \<le> length (take i s)"
  proof (intro allI impI)
    fix u' v' assume d: "s = u' @ text_of sep @ v'"
    then have "length u' \<le> i" using rfind_sub_greatest[OF i] by blast
    moreover have "length u' \<le> length s" by (subst d) simp
    ultimately show "length u' \<le> length (take i s)" by simp
  qed
  ultimately show ?thesis by blast
qed

lemma str_partition_absent:
  assumes "is_str sep" and "text_of sep \<noteq> []" and "\<nexists>u v. s = u @ text_of sep @ v"
  shows "str_partition s sep = Inr (s, [], [])" and "str_rpartition s sep = Inr ([], [], s)"
proof -
  have "find_sub (text_of sep) s = None"
    using find_sub_Some[of "text_of sep" s] assms(3)
    by (cases "find_sub (text_of sep) s") auto
  then show "str_partition s sep = Inr (s, [], [])"
    using assms(1,2) by (simp add: str_partition_def)
  have "rfind_sub (text_of sep) s = None"
    using rfind_sub_Some[of "text_of sep" s] assms(3)
    by (cases "rfind_sub (text_of sep) s") auto
  then show "str_rpartition s sep = Inr ([], [], s)"
    using assms(1,2) by (simp add: str_rpartition_def)
qed

text \<open>
  C7, as amended. For every provenance string \<open>a\<close> and every separator \<open>sep\<close> that is a
  string (plain or provenance-carrying) and is not empty, \<open>partition\<close> and \<open>rpartition\<close>
  return a triple of provenance strings, all three with absent scores and with the
  markers of \<open>a\<close> united with those of \<open>sep\<close>. When the text of \<open>sep\<close> occurs in the
  text of \<open>a\<close>, the middle component is that text, the three components concatenate to
  the text of \<open>a\<close>, and the occurrence taken is the first one for \<open>partition\<close> and the
  last one for \<open>rpartition\<close>. When it does not occur, the triple is (text, empty, empty)
  for \<open>partition\<close> and (empty, empty, text) for \<open>rpartition\<close>.
\<close>

theorem partition_triples:
  assumes "is_str sep" and "text_of sep \<noteq> []"
  shows "\<exists>p1 p2 p3 q1 q2 q3.
     (let mk = (\<lambda>p. \<lparr>content = p, logits = None :: 'l option,
                       origin_trace = origin_trace (a :: 'l lstr) \<union> origins_of sep\<rparr>)
      in lstr_partition a sep = Inr (mk p1, mk p2, mk p3)
       \<and> lstr_rpartition a sep = Inr (mk q1, mk q2, mk q3))
     \<and> (if \<exists>u v. content a = u @ text_of sep @ v
        then p2 = text_of sep \<and> q2 = text_of sep
           \<and> content a = p1 @ text_of sep @ p3
           \<and> content a = q1 @ text_of sep @ q3
           \<and> (\<forall>u v. content a = u @ text_of sep @ v \<longrightarrow>
                  length p1 \<le> length u \<and> length u \<le> length q1)
        else (p1, p2, p3) = (content a, [], []) \<and> (q1, q2, q3) = ([], [], content a))"
proof (cases "\<exists>u v. content a = u @ text_of sep @ v")
  case True
  then obtain u v where uv: "content a = u @ text_of sep @ v" by blast
  from str_partition_found[OF assms uv] obtain p1 p3 where
    p: "str_partition (content a) sep = Inr (p1, text_of sep, p3)"
       "content a = p1 @ text_of sep @ p3"
       "\<forall>u' v'. content a = u' @ text_of sep @ v' \<longrightarrow> length p1 \<le> length u'"
    by blast
  from str_rpartition_found[OF assms uv] obtain q1 q3 where
    q: "str_rpartition (content a) sep = Inr (q1, text_of sep, q3)"
       "content a = q1 @ text_of sep @ q3"
       "\<forall>u' v'. content a = u' @ text_of sep @ v' \<longrightarrow> length u' \<le> length q1"
    by blast
  show ?thesis
    apply (rule exI[of _ p1], rule exI[of _ "text_of sep"], rule exI[of _ p3])
    apply (rule exI[of _ q1], rule exI[of _ "text_of sep"], rule exI[of _ q3])
    using True p q
    by (simp add: lstr_partition_def lstr_rpartition_def partition_helper_str)
next
  case False
  from str_partition_absent[OF assms, of "content a"] False
  have p: "str_partition (content a) sep = Inr (content a, [], [])"
    and q: "str_rpartition (content a) sep = Inr ([], [], content a)"
    by blast+
  show ?thesis
    apply (rule exI[of _ "content a"], rule exI[of _ "[]"], rule exI[of _ "[]"])
    apply (rule exI[of _ "[]"], rule exI[of _ "[]"], rule exI[of _ "content a"])
    using False p q
    by (simp add: lstr_partition_def lstr_rpartition_def partition_helper_str)
qed

theorem partition_triples_witness:
  "is_str (PStr ''o'' :: int list pyval)
   \<and> text_of (PStr ''o'' :: int list pyval) \<noteq> []
   \<and> lstr_partition
        \<lparr>content = ''HelloWorld'', logits = None :: int list option, origin_trace = {''m1'', ''m2''}\<rparr>
        (PStr ''o'')
      = Inr (\<lparr>content = ''Hell'', logits = None, origin_trace = {''m1'', ''m2''}\<rparr>,
             \<lparr>content = ''o'', logits = None, origin_trace = {''m1'', ''m2''}\<rparr>,
             \<lparr>content = ''World'', logits = None, origin_trace = {''m1'', ''m2''}\<rparr>)
   \<and> lstr_rpartition
        \<lparr>content = ''HelloWorld'', logits = None :: int list option, origin_trace = {''m1'', ''m2''}\<rparr>
        (PStr ''o'')
      = Inr (\<lparr>content = ''HelloW'', logits = None, origin_trace = {''m1'', ''m2''}\<rparr>,
             \<lparr>content = ''o'', logits = None, origin_trace = {''m1'', ''m2''}\<rparr>,
             \<lparr>content = ''rld'', logits = None, origin_trace = {''m1'', ''m2''}\<rparr>)"
proof -
  let ?a = "\<lparr>content = ''HelloWorld'', logits = None :: int list option,
             origin_trace = {''m1'', ''m2''}\<rparr>"
  let ?sep = "PStr ''o'' :: int list pyval"
  have h1: "is_str ?sep" by simp
  have h2: "text_of ?sep \<noteq> []" by simp
  have ev: "str_partition ''HelloWorld'' ?sep = Inr (''Hell'', ''o'', ''World'')"
    "str_rpartition ''HelloWorld'' ?sep = Inr (''HelloW'', ''o'', ''rld'')"
    by (simp_all add: str_partition_def str_rpartition_def starts_with_def)
  from partition_triples[OF h1 h2, of ?a] ev show ?thesis
    by (simp add: lstr_partition_def lstr_rpartition_def partition_helper_str)
qed

lemma partition_absent_lstr_separator_example:
  "lstr_partition
     \<lparr>content = ''HelloWorld'', logits = Some [1, 2 :: int], origin_trace = {''m1''}\<rparr>
     (PLstr \<lparr>content = ''xy'', logits = None, origin_trace = {''m3''}\<rparr>)
   = Inr (\<lparr>content = ''HelloWorld'', logits = None, origin_trace = {''m1'', ''m3''}\<rparr>,
          \<lparr>content = [], logits = None, origin_trace = {''m1'', ''m3''}\<rparr>,
          \<lparr>content = [], logits = None, origin_trace = {''m1'', ''m3''}\<rparr>)
   \<and> lstr_rpartition
     \<lparr>content = ''HelloWorld'', logits = Some [1, 2 :: int], origin_trace = {''m1''}\<rparr>
     (PLstr \<lparr>content = ''xy'', logits = None, origin_trace = {''m3''}\<rparr>)
   = Inr (\<lparr>content = [], logits = None, origin_trace = {''m1'', ''m3''}\<rparr>,
          \<lparr>content = [], logits = None, origin_trace = {''m1'', ''m3''}\<rparr>,
          \<lparr>content = ''HelloWorld'', logits = None, origin_trace = {''m1'', ''m3''}\<rparr>)"
  by (simp add: lstr_partition_def lstr_rpartition_def partition_helper_str
      str_partition_def str_rpartition_def starts_with_def insert_commute)

text \<open>
  C7 as stated ranges over every separator. With the empty string as separator both
  operations raise \<open>ValueError\<close>, as the plain ones do, and return no triple.
\<close>

theorem partition_empty_separator_raises:
  "lstr_partition
     \<lparr>content = ''HelloWorld'', logits = None :: int list option, origin_trace = {''m1''}\<rparr>
     (PStr []) = Inl ValueError
   \<and> lstr_rpartition
     \<lparr>content = ''HelloWorld'', logits = None :: int list option, origin_trace = {''m1''}\<rparr>
     (PStr []) = Inl ValueError"
  by (simp add: lstr_partition_def lstr_rpartition_def partition_helper_def
      str_partition_def str_rpartition_def)

subsection \<open>Template substitution\<close>

lemma lstr_mod_tuple:
  "lstr_mod fmt object_str a (PTuple items) =
     (case fmt (content a) (PTuple (map (\<lambda>v. PStr (py_str object_str v)) items)) of
        Inl e \<Rightarrow> Inl e
      | Inr r \<Rightarrow>
          Inr \<lparr>content = r, logits = None,
               origin_trace = origin_trace a \<union> \<Union> (origins_of ` set items)\<rparr>)"
  by (simp add: lstr_mod_def collect_origins_union split: sum.splits)

lemma lstr_mod_single:
  "\<forall>items. other \<noteq> PTuple items \<Longrightarrow>
   lstr_mod fmt object_str a other =
     (case fmt (content a) other of
        Inl e \<Rightarrow> Inl e
      | Inr r \<Rightarrow>
          Inr \<lparr>content = r, logits = None, origin_trace = origin_trace a \<union> origins_of other\<rparr>)"
  by (cases other) (simp_all add: lstr_mod_def split: sum.splits)

lemma supports_index_str: "is_str v \<Longrightarrow> supports_index v = None"
  by (cases v) simp_all

lemma fmt_args_reads_text:
  "is_str v \<Longrightarrow> fmt_args t (v # rest) = fmt_args t (PStr (text_of v) # rest)"
proof (induction t rule: length_induct)
  case (1 t)
  show ?case
  proof (cases t)
    case Nil
    then show ?thesis by simp
  next
    case (Cons c t')
    show ?thesis
    proof (cases t')
      case Nil
      with Cons show ?thesis by simp
    next
      case t': (Cons d cs)
      have ih1: "fmt_args (d # cs) (v # rest) = fmt_args (d # cs) (PStr (text_of v) # rest)"
        using 1 Cons t' by simp
      have ih2: "fmt_args cs (v # rest) = fmt_args cs (PStr (text_of v) # rest)"
        using 1 Cons t' by simp
      show ?thesis
        unfolding Cons t'
        using "1.prems" by (simp add: ih1 ih2 py_str_def supports_index_str split: sum.splits)
    qed
  qed
qed

lemma fmt_sd_reads_text:
  assumes "is_str (v :: 'l pyval)"
  shows "fmt_sd t v = fmt_sd t (PStr (text_of v) :: 'l pyval)"
proof -
  have "fmt_sd t v = fmt_args t [v]"
    using assms by (cases v) (simp_all add: fmt_sd_def)
  also have "\<dots> = fmt_args t [PStr (text_of v) :: 'l pyval]"
    using assms by (rule fmt_args_reads_text)
  also have "\<dots> = fmt_sd t (PStr (text_of v) :: 'l pyval)"
    by (simp add: fmt_sd_def)
  finally show ?thesis .
qed

text \<open>
  C8, as amended. For a provenance string \<open>a\<close> used as a template: with a tuple on the
  right the result is the plain substitution of the stringified elements; with a single
  value on the right it is the plain substitution of that value as it is, not
  stringified. When the plain substitution reads a string operand through its text, as
  \<open>str.__mod__\<close> does, a single operand that is a plain or provenance-carrying string
  gives the same as its stringified form. An exception of the plain substitution
  propagates. Otherwise the result has absent scores, and its markers are those of \<open>a\<close>
  united with the markers of every provenance string among the substitution arguments;
  the other arguments add nothing.
\<close>

theorem lstr_mod_tuple_and_single:
  assumes "\<forall>t v. is_str v \<longrightarrow> fmt t v = fmt t (PStr (text_of v))"
    and "\<forall>items. other \<noteq> PTuple items"
  shows "lstr_mod fmt object_str a (PTuple items) =
           (case fmt (content a) (PTuple (map (\<lambda>v. PStr (py_str object_str v)) items)) of
              Inl e \<Rightarrow> Inl e
            | Inr r \<Rightarrow>
                Inr \<lparr>content = r, logits = None,
                     origin_trace = origin_trace a \<union> \<Union> (origins_of ` set items)\<rparr>)
       \<and> lstr_mod fmt object_str a other =
           (case fmt (content a) other of
              Inl e \<Rightarrow> Inl e
            | Inr r \<Rightarrow>
                Inr \<lparr>content = r, logits = None,
                     origin_trace = origin_trace a \<union> origins_of other\<rparr>)
       \<and> (is_str other \<longrightarrow>
            fmt (content a) other = fmt (content a) (PStr (py_str object_str other)))"
proof (intro conjI impI)
  show "lstr_mod fmt object_str a (PTuple items) =
           (case fmt (content a) (PTuple (map (\<lambda>v. PStr (py_str object_str v)) items)) of
              Inl e \<Rightarrow> Inl e
            | Inr r \<Rightarrow>
                Inr \<lparr>content = r, logits = None,
                     origin_trace = origin_trace a \<union> \<Union> (origins_of ` set items)\<rparr>)"
    by (rule lstr_mod_tuple)
  show "lstr_mod fmt object_str a other =
           (case fmt (content a) other of
              Inl e \<Rightarrow> Inl e
            | Inr r \<Rightarrow>
                Inr \<lparr>content = r, logits = None,
                     origin_trace = origin_trace a \<union> origins_of other\<rparr>)"
    using assms(2) by (rule lstr_mod_single)
  assume s: "is_str other"
  then have p: "py_str object_str other = text_of other"
    by (simp add: py_str_def)
  from assms(1) s have "fmt (content a) other = fmt (content a) (PStr (text_of other))"
    by blast
  then show "fmt (content a) other = fmt (content a) (PStr (py_str object_str other))"
    by (simp only: p)
qed

theorem lstr_mod_tuple_and_single_witness:
  "(\<forall>items. PLstr \<lparr>content = ''Bob'', logits = None :: int list option, origin_trace = {''m2''}\<rparr>
       \<noteq> PTuple items)
   \<and> lstr_mod fmt_sd scalar_str
        \<lparr>content = ''%s has %s'', logits = Some [1, 2 :: int], origin_trace = {''m1''}\<rparr>
        (PTuple [PLstr \<lparr>content = ''Bob'', logits = None, origin_trace = {''m2''}\<rparr>, PInt 3])
      = Inr \<lparr>content = ''Bob has 3'', logits = None, origin_trace = {''m1'', ''m2''}\<rparr>
   \<and> lstr_mod fmt_sd scalar_str
        \<lparr>content = ''%s has %s'', logits = Some [1, 2 :: int], origin_trace = {''m1''}\<rparr>
        (PLstr \<lparr>content = ''Bob'', logits = None, origin_trace = {''m2''}\<rparr>)
      = Inl TypeError
   \<and> fmt_sd ''%s has %s''
        (PLstr \<lparr>content = ''Bob'', logits = None :: int list option, origin_trace = {''m2''}\<rparr>)
      = fmt_sd ''%s has %s'' (PStr ''Bob'' :: int list pyval)"
proof -
  let ?a = "\<lparr>content = ''%s has %s'', logits = Some [1, 2 :: int], origin_trace = {''m1''}\<rparr>"
  let ?b = "\<lparr>content = ''Bob'', logits = None :: int list option, origin_trace = {''m2''}\<rparr>"
  have h1: "\<forall>t v. is_str (v :: int list pyval) \<longrightarrow>
              fmt_sd t v = fmt_sd t (PStr (text_of v) :: int list pyval)"
    by (intro allI impI) (rule fmt_sd_reads_text)
  have h2: "\<forall>items. PLstr ?b \<noteq> PTuple items"
    by simp
  have e1: "fmt_sd ''%s has %s'' (PTuple [PStr ''Bob'', PStr ''3''] :: int list pyval)
              = Inr ''Bob has 3''"
    by (simp add: fmt_sd_def py_str_def)
  have e2: "fmt_sd ''%s has %s'' (PStr ''Bob'' :: int list pyval) = Inl TypeError"
    by (simp add: fmt_sd_def py_str_def)
  have s3: "show_int 3 = ''3''"
    by (simp add: show_int_def show_nat.simps digit_char_def)
  from lstr_mod_tuple_and_single[OF h1 h2, of scalar_str ?a "[PLstr ?b, PInt 3]"] h2 e1 e2 s3
  show ?thesis
    by (simp add: py_str_def insert_commute)
qed

lemma lstr_mod_single_lstr_example:
  "lstr_mod fmt_sd scalar_str
     \<lparr>content = ''<%s>'', logits = Some [1, 2 :: int], origin_trace = {''m1''}\<rparr>
     (PLstr \<lparr>content = ''Bob'', logits = None, origin_trace = {''m2''}\<rparr>)
   = Inr \<lparr>content = ''<Bob>'', logits = None, origin_trace = {''m1'', ''m2''}\<rparr>"
  by (simp add: lstr_mod_def fmt_sd_def py_str_def insert_commute)

text \<open>
  C8 as stated takes the content to be the substitution over the stringified operands
  for a single value too. The single integer \<open>3\<close> under \<open>%d\<close> is handed over as it is
  and formatted, where the substitution over its stringified form raises \<open>TypeError\<close>.
\<close>

theorem lstr_mod_single_not_stringified:
  "lstr_mod fmt_sd scalar_str
     \<lparr>content = ''%d'', logits = None :: int list option, origin_trace = {''m1''}\<rparr> (PInt 3)
     = Inr \<lparr>content = ''3'', logits = None, origin_trace = {''m1''}\<rparr>
   \<and> py_str scalar_str (PInt 3 :: int list pyval) = ''3''
   \<and> fmt_sd ''%d'' (PStr (py_str scalar_str (PInt 3 :: int list pyval)) :: int list pyval)
     = Inl TypeError"
  by (simp add: lstr_mod_def fmt_sd_def py_str_def show_int_def show_nat.simps digit_char_def)

subsection \<open>Unsupported operands and failures\<close>






subsection \<open>A plain string on the left of \<open>+\<close>\<close>

text \<open>
  C4. The claim is that no operation gives a bare string, also with the provenance
  string on the right of \<open>+\<close>. The class binds the reflected \<open>__rmul__\<close> but no
  \<open>__radd__\<close>, so \<open>''abc'' + x\<close> for a provenance string \<open>x\<close> is computed by the plain
  \<open>str.__add__\<close>: the result is a bare string and the marker of \<open>x\<close> is gone. The
  operations the class does define return provenance strings.
\<close>

theorem plain_left_concatenation_is_bare:
  "''__radd__'' \<notin> set lstr_dict
   \<and> ''__rmul__'' \<in> set lstr_dict
   \<and> str_plus ''abc'' (PLstr \<lparr>content = ''x'', logits = None :: int list option,
                               origin_trace = {''m1''}\<rparr>)
      = Inr (PStr ''abcx'')
   \<and> lstr_plus \<lparr>content = ''x'', logits = None :: int list option, origin_trace = {''m1''}\<rparr>
        (PStr ''abc'')
      = Inr (PLstr \<lparr>content = ''xabc'', logits = None, origin_trace = {''m1''}\<rparr>)"
  by (simp add: lstr_dict_def str_plus_def str_add_def lstr_plus_def)

end
